theory Spec2Isabelle
  imports Complex_Main "HOL-Library.Sublist"
begin

section \<open>Values, strings and time\<close>

text \<open>
  The application is JavaScript over a document store.  Strings are modelled as
  \<^typ>\<open>string\<close> with ASCII characters, timestamps (\<^verbatim>\<open>Date.now()\<close>,
  \<^verbatim>\<open>new Date()\<close>) as milliseconds in \<^typ>\<open>int\<close>, and an empty string stands
  for a missing (falsy) form field.
\<close>

datatype oid = ObjectId nat

text \<open>A JavaScript value as far as the payloads of this program need it.\<close>

datatype jsval =
    JUndefined
  | JNull
  | JBool bool
  | JNum int
  | JStr string
  | JDate int
  | JId oid
  | JObj "(string \<times> jsval) list"

type_synonym jsobject = "(string \<times> jsval) list"

text \<open>Property read \<^verbatim>\<open>o.k\<close>; a missing property reads as \<^verbatim>\<open>undefined\<close>.\<close>

definition js_get :: "jsobject \<Rightarrow> string \<Rightarrow> jsval" where
  "js_get obj k = (case map_of obj k of None \<Rightarrow> JUndefined | Some v \<Rightarrow> v)"

text \<open>Truthiness, as \<^verbatim>\<open>if (v)\<close> tests it.\<close>

fun truthy :: "jsval \<Rightarrow> bool" where
  "truthy JUndefined = False"
| "truthy JNull = False"
| "truthy (JBool b) = b"
| "truthy (JNum n) = (n \<noteq> 0)"
| "truthy (JStr s) = (s \<noteq> [])"
| "truthy (JDate t) = True"
| "truthy (JId i) = True"
| "truthy (JObj obj) = True"

definition object_keys :: "jsobject \<Rightarrow> string list" where
  "object_keys obj = map fst obj"

text \<open>\<^verbatim>\<open>String.prototype.toLowerCase\<close> on ASCII.\<close>

definition lower_char :: "char \<Rightarrow> char" where
  "lower_char c =
     (let n = (of_char c :: nat) in if 65 \<le> n \<and> n \<le> 90 then char_of (n + 32) else c)"

definition toLowerCase :: "string \<Rightarrow> string" where
  "toLowerCase s = map lower_char s"

text \<open>\<^verbatim>\<open>String.prototype.includes\<close>: the argument occurs as a contiguous substring.\<close>

fun str_includes :: "string \<Rightarrow> string \<Rightarrow> bool" where
  "str_includes [] sub = (sub = [])"
| "str_includes (c # cs) sub = (prefix sub (c # cs) \<or> str_includes cs sub)"

text \<open>Decimal rendering of a number inside a template literal.\<close>

definition digit_char :: "nat \<Rightarrow> char" where
  "digit_char d = char_of (48 + d)"

function show_nat :: "nat \<Rightarrow> string" where
  "show_nat n = (if n < 10 then [digit_char n] else show_nat (n div 10) @ [digit_char (n mod 10)])"
  by pat_completeness auto
termination
  by (relation "measure id") auto

definition show_int :: "int \<Rightarrow> string" where
  "show_int i = (if i < 0 then CHR ''-'' # show_nat (nat (- i)) else show_nat (nat i))"

text \<open>
  \<^verbatim>\<open>Math.ceil(ms / 1000 / 60)\<close> for an integral number of milliseconds.  The
  quotient is an integer exactly when \<open>ms\<close> is a multiple of 60000, and is otherwise
  at least 1/60000 away from one, so for differences between time stamps the
  floating-point result has the same ceiling as the exact quotient.
\<close>

definition ceil_minutes :: "int \<Rightarrow> int" where
  "ceil_minutes ms = - ((- ms) div 60000)"

text \<open>
  The pattern \<^verbatim>\<open>/^[^\s@]+@[^\s@]+\.[^\s@]+$/\<close>: the string splits as
  \<open>a @ b . c\<close> with \<open>a\<close>, \<open>b\<close>, \<open>c\<close> non-empty and free of white space and of
  \<open>@\<close>.  The split is searched over the position \<open>i\<close> of the \<open>@\<close> and \<open>j\<close> of
  the dot.
\<close>

definition is_space :: "char \<Rightarrow> bool" where
  "is_space c = (of_char c \<in> set [9, 10, 11, 12, 13, 32 :: nat])"

definition plain_char :: "char \<Rightarrow> bool" where
  "plain_char c = (\<not> is_space c \<and> c \<noteq> CHR ''@'')"

definition emailRegex_test :: "string \<Rightarrow> bool" where
  "emailRegex_test s =
     list_ex (\<lambda>i. list_ex (\<lambda>j.
         0 < i \<and> i + 1 < j \<and> j + 1 < length s
       \<and> s ! i = CHR ''@'' \<and> s ! j = CHR ''.''
       \<and> list_all plain_char (take i s)
       \<and> list_all plain_char (take (j - (i + 1)) (drop (i + 1) s))
       \<and> list_all plain_char (drop (j + 1) s))
       [0 ..< length s]) [0 ..< length s]"

section \<open>The users collection (database/models/User.js, database/mongo.js)\<close>

subsection \<open>Documents, queries and updates\<close>

text \<open>
  A document of the users collection has the shape \<^verbatim>\<open>createUser\<close> and
  \<^verbatim>\<open>seedAdminUser\<close> write; the store adds \<^verbatim>\<open>_id\<close> on insertion.
  \<open>password\<close> is the bcrypt hash.  \<open>lockUntil\<close> and \<open>lastLogin\<close> are \<open>None\<close> for
  \<^verbatim>\<open>null\<close>.
\<close>

record user_fields =
  name :: string
  email :: string
  username :: string
  password :: string
  role :: string
  createdAt :: int
  updatedAt :: int
  isActive :: bool
  profile :: jsobject
  preferences :: jsobject
  lastLogin :: "int option"
  loginAttempts :: int
  lockUntil :: "int option"

record user_doc = user_fields +
  uid :: oid

text \<open>The query documents the model issues: a conjunction of conditions.\<close>

datatype cond =
    Email_is string
  | Username_is string
  | IsActive_is bool
  | Id_is oid
  | Or_of "cond list"

type_synonym query = "cond list"

fun matches_cond :: "cond \<Rightarrow> user_doc \<Rightarrow> bool" where
  "matches_cond (Email_is v) d = (email d = v)"
| "matches_cond (Username_is v) d = (username d = v)"
| "matches_cond (IsActive_is b) d = (isActive d = b)"
| "matches_cond (Id_is i) d = (uid d = i)"
| "matches_cond (Or_of cs) d = list_ex (\<lambda>c. matches_cond c d) cs"

definition matches :: "query \<Rightarrow> user_doc \<Rightarrow> bool" where
  "matches q d = list_all (\<lambda>c. matches_cond c d) q"

text \<open>
  An update document: the assignments under \<^verbatim>\<open>$inc\<close> and under
  \<^verbatim>\<open>$set\<close>, in the order the code writes them.
\<close>

datatype inc_op = Inc_loginAttempts int

datatype set_op =
    Set_loginAttempts int
  | Set_lockUntil "int option"
  | Set_lastLogin "int option"
  | Set_updatedAt int
  | Set_isActive bool
  | Set_email string
  | Set_username string

record update_doc =
  inc_ops :: "inc_op list"
  set_ops :: "set_op list"

fun inc_path :: "inc_op \<Rightarrow> string" where
  "inc_path (Inc_loginAttempts n) = ''loginAttempts''"

fun set_path :: "set_op \<Rightarrow> string" where
  "set_path (Set_loginAttempts n) = ''loginAttempts''"
| "set_path (Set_lockUntil t) = ''lockUntil''"
| "set_path (Set_lastLogin t) = ''lastLogin''"
| "set_path (Set_updatedAt t) = ''updatedAt''"
| "set_path (Set_isActive b) = ''isActive''"
| "set_path (Set_email v) = ''email''"
| "set_path (Set_username v) = ''username''"

fun apply_inc :: "inc_op \<Rightarrow> user_doc \<Rightarrow> user_doc" where
  "apply_inc (Inc_loginAttempts n) d = d\<lparr>loginAttempts := loginAttempts d + n\<rparr>"

fun apply_set :: "set_op \<Rightarrow> user_doc \<Rightarrow> user_doc" where
  "apply_set (Set_loginAttempts n) d = d\<lparr>loginAttempts := n\<rparr>"
| "apply_set (Set_lockUntil t) d = d\<lparr>lockUntil := t\<rparr>"
| "apply_set (Set_lastLogin t) d = d\<lparr>lastLogin := t\<rparr>"
| "apply_set (Set_updatedAt t) d = d\<lparr>updatedAt := t\<rparr>"
| "apply_set (Set_isActive b) d = d\<lparr>isActive := b\<rparr>"
| "apply_set (Set_email v) d = d\<lparr>email := v\<rparr>"
| "apply_set (Set_username v) d = d\<lparr>username := v\<rparr>"

definition apply_update :: "update_doc \<Rightarrow> user_doc \<Rightarrow> user_doc" where
  "apply_update u d = fold apply_inc (inc_ops u) (fold apply_set (set_ops u) d)"

subsection \<open>Errors\<close>

text \<open>
  \<open>Error m\<close> is \<^verbatim>\<open>new Error(m)\<close>; \<open>MongoServerError code m\<close> is a write error
  of the store, with its \<^verbatim>\<open>code\<close> and \<^verbatim>\<open>message\<close>; \<open>TypeError_null k\<close> is
  the read of property \<open>k\<close> of \<^verbatim>\<open>null\<close>.
\<close>

datatype error =
    Error string
  | MongoServerError nat string
  | TypeError_null string

fun message :: "error \<Rightarrow> string" where
  "message (Error m) = m"
| "message (MongoServerError c m) = m"
| "message (TypeError_null k) =
     ''Cannot read properties of null (reading '' @ [CHR 0x27] @ k @ [CHR 0x27] @ '')''"

subsection \<open>The store behind a connected collection\<close>

text \<open>
  The document store itself is not code of this repository.  Its part in the model
  is what the MongoDB server does with the calls of the collection's methods:
  \<^item> \<^verbatim>\<open>findOne\<close> returns the first document that matches;
  \<^item> \<^verbatim>\<open>insertOne\<close> gives the document a fresh \<^verbatim>\<open>_id\<close>, and the two unique
    indexes \<^verbatim>\<open>email_1\<close> and \<^verbatim>\<open>username_1\<close> that \<^verbatim>\<open>User.initialize\<close> creates
    reject a duplicate with write error 11000, whose message names the collection,
    the index and the duplicated key with its value;
  \<^item> \<^verbatim>\<open>updateOne\<close> rejects an update document that names one path under two
    operators (write error 40), changes the first matching document otherwise, and
    is subject to the same unique indexes.
\<close>

definition dup_key_message :: "string \<Rightarrow> string \<Rightarrow> string" where
  "dup_key_message field v =
     ''E11000 duplicate key error collection: studyconnect.users index: '' @ field
       @ ''_1 dup key: { '' @ field @ '': '' @ [CHR 0x22] @ v @ [CHR 0x22] @ '' }''"

definition conflict_message :: "string \<Rightarrow> string" where
  "conflict_message path =
     ''Updating the path '' @ [CHR 0x27] @ path @ [CHR 0x27]
       @ '' would create a conflict at '' @ [CHR 0x27] @ path @ [CHR 0x27]"

definition fresh_oid :: "user_doc list \<Rightarrow> oid" where
  "fresh_oid ds = ObjectId (Suc (fold max (map (\<lambda>d. case uid d of ObjectId n \<Rightarrow> n) ds) 0))"

definition store_findOne :: "query \<Rightarrow> user_doc list \<Rightarrow> user_doc option" where
  "store_findOne q ds = find (matches q) ds"

definition store_insertOne :: "user_fields \<Rightarrow> user_doc list \<Rightarrow> (error + jsobject) \<times> user_doc list" where
  "store_insertOne f ds =
     (if list_ex (\<lambda>d. email d = email f) ds
      then (Inl (MongoServerError 11000 (dup_key_message ''email'' (email f))), ds)
      else if list_ex (\<lambda>d. username d = username f) ds
      then (Inl (MongoServerError 11000 (dup_key_message ''username'' (username f))), ds)
      else (Inr [(''acknowledged'', JBool True), (''insertedId'', JId (fresh_oid ds))],
            ds @ [user_fields.extend f (user_doc.fields (fresh_oid ds))]))"

fun replace_first :: "('a \<Rightarrow> bool) \<Rightarrow> 'a \<Rightarrow> 'a list \<Rightarrow> 'a list" where
  "replace_first P y [] = []"
| "replace_first P y (x # xs) = (if P x then y # xs else x # replace_first P y xs)"

definition conflicting_paths :: "update_doc \<Rightarrow> string list" where
  "conflicting_paths u =
     filter (\<lambda>p. p \<in> set (map set_path (set_ops u))) (map inc_path (inc_ops u))"

definition store_updateOne :: "query \<Rightarrow> update_doc \<Rightarrow> user_doc list \<Rightarrow> (error + jsobject) \<times> user_doc list" where
  "store_updateOne q u ds =
     (case conflicting_paths u of
        p # _ \<Rightarrow> (Inl (MongoServerError 40 (conflict_message p)), ds)
      | [] \<Rightarrow>
         (case find (matches q) ds of
            None \<Rightarrow>
              (Inr [(''acknowledged'', JBool True), (''matchedCount'', JNum 0),
                    (''modifiedCount'', JNum 0)], ds)
          | Some d \<Rightarrow>
              let d' = apply_update u d in
              if email d' \<noteq> email d \<and> list_ex (\<lambda>x. email x = email d') ds
              then (Inl (MongoServerError 11000 (dup_key_message ''email'' (email d'))), ds)
              else if username d' \<noteq> username d \<and> list_ex (\<lambda>x. username x = username d') ds
              then (Inl (MongoServerError 11000 (dup_key_message ''username'' (username d'))), ds)
              else (Inr [(''acknowledged'', JBool True), (''matchedCount'', JNum 1),
                         (''modifiedCount'', JNum (if d' = d then 0 else 1))],
                    replace_first (matches q) d' ds)))"





subsection \<open>The manager and the collection it hands out\<close>

text \<open>
  The state the functions below run in: whether \<^verbatim>\<open>MongoDBManager.db\<close> is set,
  the documents of the users collection on the server, the collection the users model
  holds (\<^verbatim>\<open>User.collection\<close>, \<open>None\<close> for \<^verbatim>\<open>null\<close>), and the calls made so
  far to the collection and to bcrypt, oldest first.
\<close>

datatype collection =
    Real_collection string
  | Mock_collection string
  | Guarded_collection string

datatype event =
    Ev_find query
  | Ev_findOne query
  | Ev_insertOne user_fields
  | Ev_insertMany "user_fields list"
  | Ev_updateOne query update_doc
  | Ev_deleteOne query
  | Ev_countDocuments query
  | Ev_aggregate
  | Ev_hash string
  | Ev_compare string string

record world =
  db_connected :: bool
  users :: "user_doc list"
  user_collection :: "collection option"
  trace :: "event list"

definition logged :: "event \<Rightarrow> world \<Rightarrow> world" where
  "logged e w = w\<lparr>trace := trace w @ [e]\<rparr>"

text \<open>
  \<^verbatim>\<open>getCollection\<close> of src/unnamed/part\_001: without a connection it returns an
  object of mock methods.
\<close>

definition getCollection :: "world \<Rightarrow> string \<Rightarrow> collection" where
  "getCollection w cname = (if \<not> db_connected w then Mock_collection cname else Real_collection cname)"


definition not_connected :: "string \<Rightarrow> error" where
  "not_connected cname = Error (''Database not connected for collection: '' @ cname)"

text \<open>
  The methods of a collection.  A real collection works on the store (only the users
  collection is modelled).  \<open>t\<close> is the reading of \<^verbatim>\<open>Date.now()\<close> a mock insertion
  makes (for \<^verbatim>\<open>insertMany\<close>, \<open>t i\<close> is the reading for document \<open>i\<close>).
  \<open>coll_find\<close> is \<^verbatim>\<open>find(q)\<close> followed by \<^verbatim>\<open>toArray()\<close>.
\<close>

definition mock_id :: "int \<Rightarrow> string" where
  "mock_id t = ''mock-id-'' @ show_int t"


definition coll_findOne :: "collection \<Rightarrow> query \<Rightarrow> world \<Rightarrow> (error + user_doc option) \<times> world" where
  "coll_findOne c q w =
     (case c of
        Real_collection n \<Rightarrow> (Inr (store_findOne q (users w)), logged (Ev_findOne q) w)
      | Mock_collection n \<Rightarrow> (Inr None, logged (Ev_findOne q) w)
      | Guarded_collection n \<Rightarrow>
          if \<not> db_connected w then (Inl (not_connected n), logged (Ev_findOne q) w)
          else (Inr (store_findOne q (users w)), logged (Ev_findOne q) w))"

definition real_insertOne :: "user_fields \<Rightarrow> world \<Rightarrow> (error + jsobject) \<times> world" where
  "real_insertOne f w =
     (case store_insertOne f (users w) of
        (r, ds) \<Rightarrow> (r, logged (Ev_insertOne f) (w\<lparr>users := ds\<rparr>)))"

definition coll_insertOne :: "collection \<Rightarrow> int \<Rightarrow> user_fields \<Rightarrow> world \<Rightarrow> (error + jsobject) \<times> world" where
  "coll_insertOne c t f w =
     (case c of
        Real_collection n \<Rightarrow> real_insertOne f w
      | Mock_collection n \<Rightarrow>
          (Inr [(''insertedId'', JStr (mock_id t)), (''acknowledged'', JBool True)],
           logged (Ev_insertOne f) w)
      | Guarded_collection n \<Rightarrow>
          if \<not> db_connected w then (Inl (not_connected n), logged (Ev_insertOne f) w)
          else real_insertOne f w)"


definition real_updateOne :: "query \<Rightarrow> update_doc \<Rightarrow> world \<Rightarrow> (error + jsobject) \<times> world" where
  "real_updateOne q u w =
     (case store_updateOne q u (users w) of
        (r, ds) \<Rightarrow> (r, logged (Ev_updateOne q u) (w\<lparr>users := ds\<rparr>)))"

definition mock_updateOne :: "query \<Rightarrow> update_doc \<Rightarrow> world \<Rightarrow> (error + jsobject) \<times> world" where
  "mock_updateOne q u w =
     (Inr [(''modifiedCount'', JNum 0), (''acknowledged'', JBool True)], logged (Ev_updateOne q u) w)"

definition coll_updateOne :: "collection \<Rightarrow> query \<Rightarrow> update_doc \<Rightarrow> world \<Rightarrow> (error + jsobject) \<times> world" where
  "coll_updateOne c q u w =
     (case c of
        Real_collection n \<Rightarrow> real_updateOne q u w
      | Mock_collection n \<Rightarrow> mock_updateOne q u w
      | Guarded_collection n \<Rightarrow> mock_updateOne q u w)"




subsection \<open>The users model (class User)\<close>

text \<open>
  bcrypt is a parameter of the model: \<open>bcrypt_hash bc p rounds\<close> is a digest
  \<^verbatim>\<open>bcrypt.hash\<close> returns for \<open>p\<close>, and \<open>bcrypt_compare bc p h\<close> is the verdict of
  \<^verbatim>\<open>bcrypt.compare\<close>.
\<close>

record bcrypt =
  bcrypt_hash :: "string \<Rightarrow> nat \<Rightarrow> string"
  bcrypt_compare :: "string \<Rightarrow> string \<Rightarrow> bool"

definition saltRounds :: nat where
  "saltRounds = 10"

definition hashPassword :: "bcrypt \<Rightarrow> string \<Rightarrow> world \<Rightarrow> string \<times> world" where
  "hashPassword bc p w = (bcrypt_hash bc p saltRounds, logged (Ev_hash p) w)"

definition comparePassword :: "bcrypt \<Rightarrow> string \<Rightarrow> string \<Rightarrow> world \<Rightarrow> bool \<times> world" where
  "comparePassword bc p h w = (bcrypt_compare bc p h, logged (Ev_compare p h) w)"

text \<open>
  \<^verbatim>\<open>initialize\<close> takes the manager's \<^verbatim>\<open>getCollection\<close> as \<open>gc\<close>.  The index
  creation it attempts on a real collection is part of the store above.
\<close>

definition initialize :: "(world \<Rightarrow> string \<Rightarrow> collection) \<Rightarrow> world \<Rightarrow> world" where
  "initialize gc w = w\<lparr>user_collection := Some (gc w ''users'')\<rparr>"

text \<open>
  \<^verbatim>\<open>createUser(userData)\<close>.  The clock readings, in the order the code takes them:
  \<^verbatim>\<open>createdAt\<close>, \<^verbatim>\<open>updatedAt\<close>, and the one a mock insertion makes.
\<close>

record userData =
  d_name :: string
  d_email :: string
  d_password :: string
  d_username :: string
  d_role :: "string option"

record create_clock =
  t_createdAt :: int
  t_updatedAt :: int
  t_insert :: int

definition new_user :: "create_clock \<Rightarrow> userData \<Rightarrow> string \<Rightarrow> user_fields" where
  "new_user clk ud hashedPassword =
     \<lparr> name = d_name ud,
       email = toLowerCase (d_email ud),
       username = toLowerCase (d_username ud),
       password = hashedPassword,
       role = (case d_role ud of None \<Rightarrow> ''student'' | Some r \<Rightarrow> r),
       createdAt = t_createdAt clk,
       updatedAt = t_updatedAt clk,
       isActive = True,
       profile = [(''bio'', JStr ''''), (''university'', JStr ''''), (''major'', JStr ''''),
                  (''year'', JStr ''''), (''avatar'', JStr ''''), (''socialLinks'', JObj [])],
       preferences = [(''emailNotifications'', JBool True), (''theme'', JStr ''dark'')],
       lastLogin = None,
       loginAttempts = 0,
       lockUntil = None \<rparr>"

text \<open>The body of the \<^verbatim>\<open>try\<close> block.\<close>

definition createUser_try :: "bcrypt \<Rightarrow> create_clock \<Rightarrow> userData \<Rightarrow> world \<Rightarrow> (error + jsobject) \<times> world" where
  "createUser_try bc clk ud w =
     (if d_name ud = [] \<or> d_email ud = [] \<or> d_password ud = [] \<or> d_username ud = []
      then (Inl (Error ''All fields are required''), w)
      else if \<not> emailRegex_test (d_email ud)
      then (Inl (Error ''Invalid email format''), w)
      else if length (d_password ud) < 6
      then (Inl (Error ''Password must be at least 6 characters''), w)
      else
        (case hashPassword bc (d_password ud) w of
           (hashedPassword, w1) \<Rightarrow>
             let u = new_user clk ud hashedPassword in
             (case user_collection w1 of
                None \<Rightarrow> (Inl (Error ''Database collection not available''), w1)
              | Some c \<Rightarrow>
                  (case coll_insertOne c (t_insert clk) u w1 of
                     (Inl e, w2) \<Rightarrow> (Inl e, w2)
                   | (Inr result, w2) \<Rightarrow>
                       (Inr [(''success'', JBool True),
                             (''userId'', js_get result ''insertedId''),
                             (''user'', JObj [(''id'', js_get result ''insertedId''),
                                              (''name'', JStr (name u)),
                                              (''email'', JStr (email u)),
                                              (''username'', JStr (username u)),
                                              (''role'', JStr (role u))])],
                        w2)))))"

text \<open>The \<^verbatim>\<open>catch\<close> block: a duplicate-key error is renamed, any other is rethrown.\<close>

definition createUser_catch :: "error \<Rightarrow> error" where
  "createUser_catch e =
     (case e of
        MongoServerError code msg \<Rightarrow>
          if code = 11000
          then Error ((if str_includes msg ''email'' then ''Email'' else ''Username'') @ '' already exists'')
          else e
      | _ \<Rightarrow> e)"

definition createUser :: "bcrypt \<Rightarrow> create_clock \<Rightarrow> userData \<Rightarrow> world \<Rightarrow> (error + jsobject) \<times> world" where
  "createUser bc clk ud w =
     (case createUser_try bc clk ud w of
        (Inl e, w') \<Rightarrow> (Inl (createUser_catch e), w')
      | (Inr r, w') \<Rightarrow> (Inr r, w'))"

text \<open>
  \<^verbatim>\<open>authenticate(emailOrUsername, password)\<close>.  Each place where the code reads
  the clock has a reading of its own: the lock test, the remaining time in the
  message, \<^verbatim>\<open>updatedAt\<close> and \<^verbatim>\<open>lockUntil\<close> after a wrong password,
  \<^verbatim>\<open>lastLogin\<close> and \<^verbatim>\<open>updatedAt\<close> after a right one.
\<close>

record auth_clock =
  t_lock_test :: int
  t_lock_message :: int
  t_failed_updatedAt :: int
  t_lock_set :: int
  t_lastLogin :: int
  t_login_updatedAt :: int

definition auth_query :: "string \<Rightarrow> query" where
  "auth_query emailOrUsername =
     [Or_of [Email_is (toLowerCase emailOrUsername), Username_is (toLowerCase emailOrUsername)],
      IsActive_is True]"

text \<open>\<^verbatim>\<open>user.lockUntil && user.lockUntil > Date.now()\<close>; the number 0 is falsy.\<close>

definition is_locked :: "auth_clock \<Rightarrow> user_doc \<Rightarrow> bool" where
  "is_locked clk u =
     (case lockUntil u of None \<Rightarrow> False | Some t \<Rightarrow> t \<noteq> 0 \<and> t > t_lock_test clk)"

definition locked_message :: "auth_clock \<Rightarrow> user_doc \<Rightarrow> string" where
  "locked_message clk u =
     (case lockUntil u of
        None \<Rightarrow> []
      | Some t \<Rightarrow>
          ''Account is locked. Try again in ''
            @ show_int (ceil_minutes (t - t_lock_message clk)) @ '' minutes'')"

definition failed_update :: "auth_clock \<Rightarrow> user_doc \<Rightarrow> update_doc" where
  "failed_update clk u =
     (let update = \<lparr> inc_ops = [Inc_loginAttempts 1],
                      set_ops = [Set_updatedAt (t_failed_updatedAt clk)] \<rparr>
      in if loginAttempts u + 1 \<ge> 5
         then update\<lparr>set_ops := set_ops update
                 @ [Set_lockUntil (Some (t_lock_set clk + 15 * 60 * 1000)), Set_loginAttempts 0]\<rparr>
         else update)"

definition login_update :: "auth_clock \<Rightarrow> update_doc" where
  "login_update clk =
     \<lparr> inc_ops = [],
       set_ops = [Set_loginAttempts 0, Set_lockUntil None, Set_lastLogin (Some (t_lastLogin clk)),
                  Set_updatedAt (t_login_updatedAt clk)] \<rparr>"

definition user_projection :: "user_doc \<Rightarrow> jsobject" where
  "user_projection u =
     [(''id'', JId (uid u)),
      (''name'', JStr (name u)),
      (''email'', JStr (email u)),
      (''username'', JStr (username u)),
      (''role'', JStr (role u)),
      (''profile'', JObj (profile u)),
      (''createdAt'', JDate (createdAt u))]"

definition authenticate :: "bcrypt \<Rightarrow> auth_clock \<Rightarrow> string \<Rightarrow> string \<Rightarrow> world \<Rightarrow> (error + jsobject) \<times> world" where
  "authenticate bc clk emailOrUsername pw w =
     (case user_collection w of
        None \<Rightarrow> (Inl (TypeError_null ''findOne''), w)
      | Some c \<Rightarrow>
          (case coll_findOne c (auth_query emailOrUsername) w of
             (Inl e, w1) \<Rightarrow> (Inl e, w1)
           | (Inr None, w1) \<Rightarrow> (Inl (Error ''Invalid credentials''), w1)
           | (Inr (Some u), w1) \<Rightarrow>
               if is_locked clk u then (Inl (Error (locked_message clk u)), w1)
               else
                 (case comparePassword bc pw (password u) w1 of
                    (isValidPassword, w2) \<Rightarrow>
                      if \<not> isValidPassword
                      then
                        (case coll_updateOne c [Id_is (uid u)] (failed_update clk u) w2 of
                           (Inl e, w3) \<Rightarrow> (Inl e, w3)
                         | (Inr r, w3) \<Rightarrow> (Inl (Error ''Invalid credentials''), w3))
                      else
                        (case coll_updateOne c [Id_is (uid u)] (login_update clk) w2 of
                           (Inl e, w3) \<Rightarrow> (Inl e, w3)
                         | (Inr r, w3) \<Rightarrow>
                             (Inr [(''success'', JBool True), (''user'', JObj (user_projection u))],
                              w3)))))"






section \<open>Sessions, the role middleware and registration (middleware/auth.js, routes/auth.js)\<close>

text \<open>
  The session of a request; \<open>None\<close> is an absent property.  \<open>user\<close> is the
  projection \<^verbatim>\<open>authenticate\<close> returned at login.
\<close>

record session =
  user :: "jsval option"
  returnTo :: "string option"
  error :: "string option"
  success :: "string option"
  formData :: "jsobject option"

datatype response =
    Redirect string
  | Send_status nat string
  | Next

text \<open>\<^verbatim>\<open>v.k\<close> for a value: only an object has properties of its own.\<close>

definition js_member :: "jsval \<Rightarrow> string \<Rightarrow> jsval" where
  "js_member v k = (case v of JObj obj \<Rightarrow> js_get obj k | _ \<Rightarrow> JUndefined)"

text \<open>
  \<^verbatim>\<open>requireRole(role)\<close> applied to a request with URL \<open>originalUrl\<close> and
  session \<open>s\<close>: the response (\<open>Next\<close> when the request is passed on) and the session
  afterwards.
\<close>

definition requireRole :: "string \<Rightarrow> string \<Rightarrow> session \<Rightarrow> response \<times> session" where
  "requireRole r originalUrl s =
     (case user s of
        None \<Rightarrow> (Redirect ''/auth/login'', s\<lparr>returnTo := Some originalUrl\<rparr>)
      | Some u \<Rightarrow>
          if \<not> truthy u
          then (Redirect ''/auth/login'', s\<lparr>returnTo := Some originalUrl\<rparr>)
          else if js_member u ''role'' \<noteq> JStr r \<and> js_member u ''role'' \<noteq> JStr ''admin''
          then (Send_status 403 ''Access denied'', s)
          else (Next, s))"

text \<open>
  \<^verbatim>\<open>ensureUserModelInitialized\<close>: \<open>None\<close> when it returns, the error when it
  throws.
\<close>

definition ensureUserModelInitialized ::
  "(world \<Rightarrow> string \<Rightarrow> collection) \<Rightarrow> world \<Rightarrow> error option \<times> world" where
  "ensureUserModelInitialized gc w =
     (case user_collection w of
        Some c \<Rightarrow> (None, w)
      | None \<Rightarrow>
          let w' = initialize gc w in
          (case user_collection w' of
             None \<Rightarrow> (Some (Error ''Authentication service unavailable. Please try again.''), w')
           | Some c \<Rightarrow> (None, w')))"

text \<open>
  The handler of \<^verbatim>\<open>POST /register\<close>.  The form fields are strings, empty when
  missing.  \<open>register_failed\<close> is its \<^verbatim>\<open>catch\<close> block.
\<close>

record register_body =
  b_name :: string
  b_email :: string
  b_username :: string
  b_password :: string
  b_confirmPassword :: string

definition register_failed :: "error \<Rightarrow> session \<Rightarrow> response \<times> session" where
  "register_failed e s =
     (Redirect ''/auth/register'',
      s\<lparr>error := Some (if message e = [] then ''Registration failed'' else message e)\<rparr>)"

definition post_register ::
  "(world \<Rightarrow> string \<Rightarrow> collection) \<Rightarrow> bcrypt \<Rightarrow> create_clock \<Rightarrow> auth_clock \<Rightarrow>
     register_body \<Rightarrow> session \<Rightarrow> world \<Rightarrow> (response \<times> session) \<times> world" where
  "post_register gc bc cclk aclk body s w =
     (case ensureUserModelInitialized gc w of
        (Some e, w0) \<Rightarrow> (register_failed e s, w0)
      | (None, w0) \<Rightarrow>
          let s1 = s\<lparr>formData := Some [(''name'', JStr (b_name body)),
                                        (''email'', JStr (b_email body)),
                                        (''username'', JStr (b_username body))]\<rparr>
          in
          if b_name body = [] \<or> b_email body = [] \<or> b_username body = []
             \<or> b_password body = [] \<or> b_confirmPassword body = []
          then ((Redirect ''/auth/register'', s1\<lparr>error := Some ''All fields are required''\<rparr>), w0)
          else if b_password body \<noteq> b_confirmPassword body
          then ((Redirect ''/auth/register'', s1\<lparr>error := Some ''Passwords do not match''\<rparr>), w0)
          else if length (b_password body) < 6
          then ((Redirect ''/auth/register'',
                 s1\<lparr>error := Some ''Password must be at least 6 characters''\<rparr>), w0)
          else
            (case createUser bc cclk
                    \<lparr> d_name = b_name body, d_email = b_email body,
                      d_password = b_password body, d_username = b_username body,
                      d_role = Some ''student'' \<rparr> w0 of
               (Inl e, w1) \<Rightarrow> (register_failed e s1, w1)
             | (Inr result, w1) \<Rightarrow>
                 if truthy (js_get result ''success'')
                 then
                   (case authenticate bc aclk (b_email body) (b_password body) w1 of
                      (Inl e, w2) \<Rightarrow> (register_failed e s1, w2)
                    | (Inr authResult, w2) \<Rightarrow>
                        if truthy (js_get authResult ''success'')
                        then ((Redirect ''/'',
                               s1\<lparr>user := Some (js_get authResult ''user''),
                                  success := Some ''Account created successfully! Welcome to StudyConnect!'',
                                  formData := None\<rparr>), w2)
                        else ((Redirect ''/auth/login'',
                               s1\<lparr>success := Some ''Account created! Please log in.''\<rparr>), w2))
                 else ((Redirect ''/auth/register'',
                        s1\<lparr>error := Some ''Failed to create account''\<rparr>), w1)))"

section \<open>A concrete scenario\<close>

text \<open>
  The account of the spec's scenario, registered at time 1000 with password
  \<open>secret1\<close>, in a connected store, and a bcrypt stand-in whose digest is the
  reversed password behind the usual prefix.
\<close>

definition demo_bcrypt :: bcrypt where
  "demo_bcrypt = \<lparr> bcrypt_hash = (\<lambda>p rounds. ''$2a$'' @ show_nat rounds @ ''$'' @ rev p),
                    bcrypt_compare = (\<lambda>p h. h = ''$2a$10$'' @ rev p) \<rparr>"

definition demo_data :: userData where
  "demo_data = \<lparr> d_name = ''A'', d_email = ''a@x.com'', d_password = ''secret1'',
                  d_username = ''a1'', d_role = None \<rparr>"

definition demo_user :: user_doc where
  "demo_user =
     user_fields.extend
       (new_user \<lparr> t_createdAt = 1000, t_updatedAt = 1000, t_insert = 1000 \<rparr> demo_data
          (bcrypt_hash demo_bcrypt ''secret1'' saltRounds))
       (user_doc.fields (ObjectId 1))"

definition demo_world :: "user_doc list \<Rightarrow> world" where
  "demo_world ds = \<lparr> db_connected = True, users = ds,
                      user_collection = Some (Real_collection ''users''), trace = [] \<rparr>"

definition demo_clock :: auth_clock where
  "demo_clock = \<lparr> t_lock_test = 2000, t_lock_message = 2001, t_failed_updatedAt = 2002,
                   t_lock_set = 2003, t_lastLogin = 2004, t_login_updatedAt = 2005 \<rparr>"

definition demo_create_clock :: create_clock where
  "demo_create_clock = \<lparr> t_createdAt = 1000, t_updatedAt = 1000, t_insert = 1000 \<rparr>"


definition demo_offline :: world where
  "demo_offline = \<lparr> db_connected = False, users = [], user_collection = None, trace = [] \<rparr>"

definition demo_body :: register_body where
  "demo_body = \<lparr> b_name = ''A'', b_email = ''a@x.com'', b_username = ''a1'',
                  b_password = ''secret1'', b_confirmPassword = ''secret1'' \<rparr>"

definition demo_session :: session where
  "demo_session = \<lparr> user = None, returnTo = None, error = None, success = None, formData = None \<rparr>"

section \<open>Auxiliary facts\<close>


lemma matches_auth_query:
  "matches (auth_query ident) d =
     ((email d = toLowerCase ident \<or> username d = toLowerCase ident) \<and> isActive d)"
  by (simp add: matches_def auth_query_def)

lemma matches_Id_is: "matches [Id_is i] d = (uid d = i)"
  by (simp add: matches_def)

lemma find_Some_mem: "find P xs = Some x \<Longrightarrow> x \<in> set xs \<and> P x"
  by (induction xs) (auto split: if_splits)

lemma find_by_distinct_key:
  "distinct (map f xs) \<Longrightarrow> x \<in> set xs \<Longrightarrow> find (\<lambda>y. f y = f x) xs = Some x"
  by (induction xs) (auto simp: image_iff)

lemma find_replace_first:
  "find P xs = Some x \<Longrightarrow> P y \<Longrightarrow> find P (replace_first P y xs) = Some y"
  by (induction xs) (auto split: if_splits)

lemma store_findOne_by_id:
  assumes "distinct (map uid ds)" and "store_findOne q ds = Some u"
  shows "store_findOne [Id_is (uid u)] ds = Some u"
proof -
  have "u \<in> set ds" using assms(2) by (auto simp: store_findOne_def dest: find_Some_mem)
  with assms(1) have "find (\<lambda>d. uid d = uid u) ds = Some u"
    by (rule find_by_distinct_key[where f=uid])
  then show ?thesis by (simp add: store_findOne_def matches_Id_is[abs_def])
qed

lemma apply_login_update:
  "apply_update (login_update clk) u =
     u\<lparr>loginAttempts := 0, lockUntil := None, lastLogin := Some (t_lastLogin clk),
       updatedAt := t_login_updatedAt clk\<rparr>"
  by (simp add: apply_update_def login_update_def)

lemma store_updateOne_login:
  assumes "store_findOne [Id_is (uid u)] ds = Some u"
  shows "store_updateOne [Id_is (uid u)] (login_update clk) ds =
           (Inr [(''acknowledged'', JBool True), (''matchedCount'', JNum 1),
                 (''modifiedCount'', JNum (if apply_update (login_update clk) u = u then 0 else 1))],
            replace_first (matches [Id_is (uid u)]) (apply_update (login_update clk) u) ds)"
proof -
  have c: "conflicting_paths (login_update clk) = []"
    by (simp add: conflicting_paths_def login_update_def)
  have f: "find (matches [Id_is (uid u)]) ds = Some u"
    using assms by (simp add: store_findOne_def)
  show ?thesis
    by (simp add: store_updateOne_def c f apply_login_update Let_def)
qed

lemma conflicting_failed_update:
  "conflicting_paths (failed_update clk u) =
     (if loginAttempts u + 1 \<ge> 5 then [''loginAttempts''] else [])"
  by (simp add: conflicting_paths_def failed_update_def Let_def)

lemma failed_update_keeps_identity:
  "email (apply_update (failed_update clk u) d) = email d"
  "username (apply_update (failed_update clk u) d) = username d"
  by (simp_all add: apply_update_def failed_update_def Let_def)


lemma demo_user_fields:
  "uid demo_user = ObjectId 1" "email demo_user = ''a@x.com''" "username demo_user = ''a1''"
  "isActive demo_user" "loginAttempts demo_user = 0" "lockUntil demo_user = None"
  "password demo_user = ''$2a$10$1terces''" "name demo_user = ''A''" "role demo_user = ''student''"
  by code_simp+

lemma demo_lower: "toLowerCase ''A@x.com'' = ''a@x.com''"
  by code_simp

lemma demo_compare:
  "bcrypt_compare demo_bcrypt ''secret1'' ''$2a$10$1terces''"
  "\<not> bcrypt_compare demo_bcrypt ''wrong'' ''$2a$10$1terces''"
  by (simp_all add: demo_bcrypt_def)

lemma demo_findOne:
  "store_findOne (auth_query ''A@x.com'') [demo_user\<lparr>lockUntil := l, loginAttempts := k\<rparr>]
     = Some (demo_user\<lparr>lockUntil := l, loginAttempts := k\<rparr>)"
  by (simp add: store_findOne_def matches_auth_query demo_user_fields demo_lower)

lemma coll_findOne_mem:
  "coll_findOne c q w = (Inr (Some u), w1) \<Longrightarrow> u \<in> set (users w) \<and> matches q u"
  by (auto simp: coll_findOne_def store_findOne_def split: collection.splits if_splits
      dest: find_Some_mem)

lemma authenticate_Inr:
  assumes "authenticate bc clk ident pw w = (Inr r, w')"
  shows "\<exists>u \<in> set (users w). matches (auth_query ident) u \<and>
           r = [(''success'', JBool True), (''user'', JObj (user_projection u))]"
proof -
  from assms obtain c where c: "user_collection w = Some c"
    by (auto simp: authenticate_def split: option.splits)
  from assms c obtain u w1 where f: "coll_findOne c (auth_query ident) w = (Inr (Some u), w1)"
    by (auto simp: authenticate_def split: prod.splits sum.splits option.splits)
  from assms c f have "r = [(''success'', JBool True), (''user'', JObj (user_projection u))]"
    by (auto simp: authenticate_def split: prod.splits sum.splits if_splits)
  with coll_findOne_mem[OF f] show ?thesis by blast
qed

lemma createUser_Inr:
  assumes "createUser bc clk ud w = (Inr r, w')"
  shows "\<exists>i. r = [(''success'', JBool True), (''userId'', i),
                   (''user'', JObj [(''id'', i),
                                    (''name'', JStr (d_name ud)),
                                    (''email'', JStr (toLowerCase (d_email ud))),
                                    (''username'', JStr (toLowerCase (d_username ud))),
                                    (''role'', JStr (case d_role ud of None \<Rightarrow> ''student'' | Some x \<Rightarrow> x))])]"
  using assms
  by (auto simp: createUser_def createUser_try_def hashPassword_def new_user_def Let_def
      split: prod.splits sum.splits if_splits option.splits)







lemma demo_createUser:
  "createUser demo_bcrypt demo_create_clock demo_data (demo_world []) =
     (Inr [(''success'', JBool True), (''userId'', JId (ObjectId 1)),
           (''user'', JObj [(''id'', JId (ObjectId 1)), (''name'', JStr ''A''),
                            (''email'', JStr ''a@x.com''), (''username'', JStr ''a1''),
                            (''role'', JStr ''student'')])],
      \<lparr> db_connected = True, users = [demo_user\<lparr>createdAt := 1000\<rparr>],
        user_collection = Some (Real_collection ''users''),
        trace = [Ev_hash ''secret1'', Ev_insertOne (user_fields.truncate demo_user)] \<rparr>)"
  by code_simp

lemma demo_authenticate:
  "fst (authenticate demo_bcrypt demo_clock ''A@x.com'' ''secret1'' (demo_world [demo_user])) =
     Inr [(''success'', JBool True), (''user'', JObj (user_projection demo_user))]"
  by code_simp


lemma demo_data_valid:
  "d_name demo_data \<noteq> []" "emailRegex_test (d_email demo_data)" "6 \<le> length (d_password demo_data)"
  "d_username demo_data \<noteq> []"
  "toLowerCase (d_email demo_data) = ''a@x.com''" "toLowerCase (d_username demo_data) = ''a1''"
  by code_simp+

lemma apply_failed_update_below:
  "loginAttempts u + 1 < 5 \<Longrightarrow>
   apply_update (failed_update clk u) u =
     u\<lparr>updatedAt := t_failed_updatedAt clk, loginAttempts := loginAttempts u + 1\<rparr>"
  by (simp add: apply_update_def failed_update_def Let_def)

lemma str_includes_here: "str_includes (sub @ ys) sub"
proof (cases "sub @ ys")
  case Nil
  then show ?thesis by simp
next
  case (Cons a list)
  have "prefix sub (sub @ ys)" by simp
  then show ?thesis unfolding Cons by simp
qed

lemma str_includes_append: "str_includes (xs @ sub @ ys) sub"
proof (induction xs)
  case Nil
  show ?case by (simp add: str_includes_here)
next
  case (Cons x xs)
  then show ?case by simp
qed

lemma dup_key_email_includes: "str_includes (dup_key_message ''email'' v) ''email''"
proof -
  have "dup_key_message ''email'' v =
          ''E11000 duplicate key error collection: studyconnect.users index: '' @ ''email''
            @ (''_1 dup key: { '' @ ''email'' @ '': '' @ [CHR 0x22] @ v @ [CHR 0x22] @ '' }'')"
    by (simp add: dup_key_message_def)
  then show ?thesis by (simp only: str_includes_append)
qed

lemma createUser_insert_error:
  assumes coll: "user_collection w = Some (Real_collection n)"
      and valid: "d_name ud \<noteq> []" "emailRegex_test (d_email ud)" "6 \<le> length (d_password ud)"
                 "d_username ud \<noteq> []"
      and ins: "fst (store_insertOne (new_user clk ud (bcrypt_hash bc (d_password ud) saltRounds))
                  (users w)) = Inl e"
  shows "fst (createUser bc clk ud w) = Inl (createUser_catch e)"
proof -
  have e: "d_email ud \<noteq> []"
    using valid(2) by (auto simp: emailRegex_test_def list_ex_iff)
  have p: "d_password ud \<noteq> []" using valid(3) by auto
  show ?thesis
    using coll valid e p ins
    by (auto simp: createUser_def createUser_try_def hashPassword_def coll_insertOne_def
        real_insertOne_def logged_def Let_def split: prod.splits sum.splits)
qed

lemma demo_data_again:
  "toLowerCase (d_username (demo_data\<lparr>d_email := ''b@x.com''\<rparr>)) = ''a1''"
  "toLowerCase (d_email (demo_data\<lparr>d_email := ''b@x.com''\<rparr>)) = ''b@x.com''"
  "emailRegex_test (d_email (demo_data\<lparr>d_email := ''b@x.com''\<rparr>))"
  "\<not> str_includes (dup_key_message ''username'' ''a1'') ''email''"
  by code_simp+

section \<open>The lockout policy of authenticate\<close>



text \<open>
  C3.  On a connected collection with distinct \<open>_id\<close>s, when the account found for
  the identifier is not locked and bcrypt accepts the password, \<open>authenticate\<close>
  returns the success result, and by then it has sent one update for that account,
  after the lookup and the comparison: the stored account has \<open>loginAttempts\<close> 0,
  \<open>lockUntil\<close> cleared and \<open>lastLogin\<close> set to the clock reading taken for it.
\<close>

theorem authenticate_success_persists:
  assumes coll: "user_collection w = Some (Real_collection n)"
      and found: "store_findOne (auth_query ident) (users w) = Some u"
      and unlocked: "\<not> is_locked clk u"
      and valid: "bcrypt_compare bc pw (password u)"
      and ids: "distinct (map uid (users w))"
  shows "\<exists>w'. authenticate bc clk ident pw w =
                 (Inr [(''success'', JBool True), (''user'', JObj (user_projection u))], w')
             \<and> store_findOne [Id_is (uid u)] (users w') =
                 Some (u\<lparr>loginAttempts := 0, lockUntil := None,
                         lastLogin := Some (t_lastLogin clk),
                         updatedAt := t_login_updatedAt clk\<rparr>)
             \<and> users w' = replace_first (\<lambda>d. uid d = uid u)
                   (u\<lparr>loginAttempts := 0, lockUntil := None,
                      lastLogin := Some (t_lastLogin clk),
                      updatedAt := t_login_updatedAt clk\<rparr>) (users w)
             \<and> trace w' = trace w @ [Ev_findOne (auth_query ident),
                                       Ev_compare pw (password u),
                                       Ev_updateOne [Id_is (uid u)] (login_update clk)]"
proof -
  let ?u' = "apply_update (login_update clk) u"
  have byid: "store_findOne [Id_is (uid u)] (users w) = Some u"
    using ids found by (rule store_findOne_by_id)
  have upd: "store_updateOne [Id_is (uid u)] (login_update clk) (users w) =
           (Inr [(''acknowledged'', JBool True), (''matchedCount'', JNum 1),
                 (''modifiedCount'', JNum (if ?u' = u then 0 else 1))],
            replace_first (matches [Id_is (uid u)]) ?u' (users w))"
    using byid by (rule store_updateOne_login)
  have after: "store_findOne [Id_is (uid u)] (replace_first (matches [Id_is (uid u)]) ?u' (users w)) = Some ?u'"
    using byid unfolding store_findOne_def
    by (rule find_replace_first) (simp add: matches_Id_is apply_login_update)
  have run: "authenticate bc clk ident pw w =
      (Inr [(''success'', JBool True), (''user'', JObj (user_projection u))],
       logged (Ev_updateOne [Id_is (uid u)] (login_update clk))
         ((logged (Ev_compare pw (password u)) (logged (Ev_findOne (auth_query ident)) w))
            \<lparr>users := replace_first (matches [Id_is (uid u)]) ?u' (users w)\<rparr>))"
    using coll found unlocked valid upd
    by (simp add: authenticate_def coll_findOne_def comparePassword_def coll_updateOne_def
        real_updateOne_def logged_def)
  show ?thesis
    unfolding run using after
    by (simp add: logged_def apply_login_update matches_Id_is[abs_def])
qed

theorem authenticate_success_persists_witness:
  "\<exists>w'. authenticate demo_bcrypt demo_clock ''A@x.com'' ''secret1''
            (demo_world [demo_user\<lparr>lockUntil := Some 1500, loginAttempts := 3\<rparr>]) =
          (Inr [(''success'', JBool True),
                (''user'', JObj (user_projection (demo_user\<lparr>lockUntil := Some 1500, loginAttempts := 3\<rparr>)))], w')
        \<and> users w' = [demo_user\<lparr>lockUntil := None, loginAttempts := 0, lastLogin := Some 2004,
                                   updatedAt := 2005\<rparr>]"
proof -
  let ?u = "demo_user\<lparr>lockUntil := Some 1500, loginAttempts := 3\<rparr>"
  let ?w = "demo_world [?u]"
  have c: "user_collection ?w = Some (Real_collection ''users'')"
    by (simp add: demo_world_def)
  have f: "store_findOne (auth_query ''A@x.com'') (users ?w) = Some ?u"
    by (simp add: demo_findOne demo_world_def)
  have l: "\<not> is_locked demo_clock ?u"
    by (simp add: is_locked_def demo_clock_def)
  have v: "bcrypt_compare demo_bcrypt ''secret1'' (password ?u)"
    by (simp add: demo_compare demo_user_fields)
  have d: "distinct (map uid (users ?w))"
    by (simp add: demo_world_def)
  from authenticate_success_persists[OF c f l v d]
  show ?thesis
    by (auto simp: demo_world_def demo_clock_def)
qed

text \<open>
  C1 at a fifth failure: the account has four failed attempts and the password is
  wrong.  The update \<open>authenticate\<close> sends names \<open>loginAttempts\<close> under both
  \<^verbatim>\<open>$inc\<close> and \<^verbatim>\<open>$set\<close>; the store rejects it, so the error is the store's,
  and the account is stored as before, with four attempts and no lock.
\<close>

theorem authenticate_fifth_failure:
  "authenticate demo_bcrypt demo_clock ''A@x.com'' ''wrong''
       (demo_world [demo_user\<lparr>loginAttempts := 4\<rparr>]) =
     (Inl (MongoServerError 40 (conflict_message ''loginAttempts'')),
      (demo_world [demo_user\<lparr>loginAttempts := 4\<rparr>])
        \<lparr>trace := [Ev_findOne (auth_query ''A@x.com''),
                   Ev_compare ''wrong'' ''$2a$10$1terces'',
                   Ev_updateOne [Id_is (ObjectId 1)]
                     \<lparr> inc_ops = [Inc_loginAttempts 1],
                       set_ops = [Set_updatedAt 2002, Set_lockUntil (Some 902003),
                                  Set_loginAttempts 0] \<rparr>]\<rparr>)"
  by code_simp

text \<open>
  A wrong password below the threshold.  On a connected collection with distinct
  \<open>_id\<close>s, when the account found is not locked, bcrypt rejects the password and
  the account has fewer than four earlier failures, \<open>authenticate\<close> stores the
  account with \<open>loginAttempts\<close> one higher (and \<open>updatedAt\<close> set) by one update,
  and fails with "Invalid credentials".
\<close>

theorem authenticate_failure_counts:
  assumes coll: "user_collection w = Some (Real_collection n)"
      and found: "store_findOne (auth_query ident) (users w) = Some u"
      and unlocked: "\<not> is_locked clk u"
      and wrong: "\<not> bcrypt_compare bc pw (password u)"
      and below: "loginAttempts u + 1 < 5"
      and ids: "distinct (map uid (users w))"
  shows "\<exists>w'. authenticate bc clk ident pw w = (Inl (Error ''Invalid credentials''), w')
             \<and> store_findOne [Id_is (uid u)] (users w') =
                 Some (u\<lparr>updatedAt := t_failed_updatedAt clk,
                         loginAttempts := loginAttempts u + 1\<rparr>)
             \<and> trace w' = trace w @ [Ev_findOne (auth_query ident),
                                       Ev_compare pw (password u),
                                       Ev_updateOne [Id_is (uid u)]
                                         \<lparr> inc_ops = [Inc_loginAttempts 1],
                                           set_ops = [Set_updatedAt (t_failed_updatedAt clk)] \<rparr>]"
proof -
  let ?u' = "apply_update (failed_update clk u) u"
  have fu: "failed_update clk u = \<lparr> inc_ops = [Inc_loginAttempts 1],
                                    set_ops = [Set_updatedAt (t_failed_updatedAt clk)] \<rparr>"
    using below by (simp add: failed_update_def Let_def)
  have c: "conflicting_paths (failed_update clk u) = []"
    using below by (simp add: conflicting_failed_update)
  have byid: "store_findOne [Id_is (uid u)] (users w) = Some u"
    using ids found by (rule store_findOne_by_id)
  then have f: "find (matches [Id_is (uid u)]) (users w) = Some u"
    by (simp add: store_findOne_def)
  have upd: "\<exists>r. store_updateOne [Id_is (uid u)] (failed_update clk u) (users w) =
           (Inr r, replace_first (matches [Id_is (uid u)]) ?u' (users w))"
    by (simp add: store_updateOne_def c f Let_def failed_update_keeps_identity)
  then obtain r where upd': "store_updateOne [Id_is (uid u)] (failed_update clk u) (users w) =
           (Inr r, replace_first (matches [Id_is (uid u)]) ?u' (users w))" by blast
  have after: "store_findOne [Id_is (uid u)] (replace_first (matches [Id_is (uid u)]) ?u' (users w)) = Some ?u'"
    unfolding store_findOne_def using f
    by (rule find_replace_first) (simp add: matches_Id_is apply_failed_update_below[OF below])
  have run: "authenticate bc clk ident pw w =
      (Inl (Error ''Invalid credentials''),
       logged (Ev_updateOne [Id_is (uid u)] (failed_update clk u))
         ((logged (Ev_compare pw (password u)) (logged (Ev_findOne (auth_query ident)) w))
            \<lparr>users := replace_first (matches [Id_is (uid u)]) ?u' (users w)\<rparr>))"
    using coll found unlocked wrong upd'
    by (simp add: authenticate_def coll_findOne_def comparePassword_def coll_updateOne_def
        real_updateOne_def logged_def)
  show ?thesis
    unfolding run using after
    by (simp add: logged_def apply_failed_update_below[OF below] fu[symmetric])
qed

theorem authenticate_failure_counts_witness:
  "\<exists>w'. authenticate demo_bcrypt demo_clock ''A@x.com'' ''wrong'' (demo_world [demo_user]) =
            (Inl (Error ''Invalid credentials''), w')
        \<and> store_findOne [Id_is (ObjectId 1)] (users w') =
            Some (demo_user\<lparr>updatedAt := 2002, loginAttempts := 1\<rparr>)"
proof -
  let ?w = "demo_world [demo_user]"
  have c: "user_collection ?w = Some (Real_collection ''users'')"
    by (simp add: demo_world_def)
  have f: "store_findOne (auth_query ''A@x.com'') (users ?w) = Some demo_user"
    by (simp add: store_findOne_def matches_auth_query demo_user_fields demo_lower demo_world_def)
  have l: "\<not> is_locked demo_clock demo_user"
    by (simp add: is_locked_def demo_user_fields)
  have v: "\<not> bcrypt_compare demo_bcrypt ''wrong'' (password demo_user)"
    by (simp add: demo_compare demo_user_fields)
  have b: "loginAttempts demo_user + 1 < 5"
    by (simp add: demo_user_fields)
  have d: "distinct (map uid (users ?w))"
    by (simp add: demo_world_def)
  from authenticate_failure_counts[OF c f l v b d]
  show ?thesis
    by (auto simp: demo_clock_def demo_user_fields)
qed

text \<open>
  A wrong password at the threshold.  On a connected collection, when the account
  found is not locked, bcrypt rejects the password and the account has four or more
  earlier failures, the update \<open>authenticate\<close> sends names \<open>loginAttempts\<close> under
  \<^verbatim>\<open>$inc\<close> and under \<^verbatim>\<open>$set\<close>: the store rejects it, \<open>authenticate\<close> fails with
  the store's error, and the documents are as before.
\<close>

theorem authenticate_failure_at_threshold:
  assumes coll: "user_collection w = Some (Real_collection n)"
      and found: "store_findOne (auth_query ident) (users w) = Some u"
      and unlocked: "\<not> is_locked clk u"
      and wrong: "\<not> bcrypt_compare bc pw (password u)"
      and reached: "loginAttempts u + 1 \<ge> 5"
  shows "\<exists>w'. authenticate bc clk ident pw w =
                 (Inl (MongoServerError 40 (conflict_message ''loginAttempts'')), w')
             \<and> users w' = users w
             \<and> trace w' = trace w @ [Ev_findOne (auth_query ident),
                                       Ev_compare pw (password u),
                                       Ev_updateOne [Id_is (uid u)]
                                         \<lparr> inc_ops = [Inc_loginAttempts 1],
                                           set_ops = [Set_updatedAt (t_failed_updatedAt clk),
                                                      Set_lockUntil (Some (t_lock_set clk + 900000)),
                                                      Set_loginAttempts 0] \<rparr>]"
proof -
  have fu: "failed_update clk u =
              \<lparr> inc_ops = [Inc_loginAttempts 1],
                set_ops = [Set_updatedAt (t_failed_updatedAt clk),
                           Set_lockUntil (Some (t_lock_set clk + 900000)),
                           Set_loginAttempts 0] \<rparr>"
    using reached by (simp add: failed_update_def Let_def)
  have c: "conflicting_paths (failed_update clk u) = [''loginAttempts'']"
    using reached by (simp add: conflicting_failed_update)
  have upd: "store_updateOne [Id_is (uid u)] (failed_update clk u) (users w) =
               (Inl (MongoServerError 40 (conflict_message ''loginAttempts'')), users w)"
    by (simp add: store_updateOne_def c)
  have run: "authenticate bc clk ident pw w =
      (Inl (MongoServerError 40 (conflict_message ''loginAttempts'')),
       logged (Ev_updateOne [Id_is (uid u)] (failed_update clk u))
         (logged (Ev_compare pw (password u)) (logged (Ev_findOne (auth_query ident)) w)))"
    using coll found unlocked wrong upd
    by (simp add: authenticate_def coll_findOne_def comparePassword_def coll_updateOne_def
        real_updateOne_def logged_def)
  show ?thesis
    unfolding run by (simp add: logged_def fu)
qed

theorem authenticate_failure_at_threshold_witness:
  "\<exists>w'. authenticate demo_bcrypt demo_clock ''A@x.com'' ''wrong''
            (demo_world [demo_user\<lparr>lockUntil := None, loginAttempts := 4\<rparr>]) =
            (Inl (MongoServerError 40 (conflict_message ''loginAttempts'')), w')
        \<and> users w' = [demo_user\<lparr>lockUntil := None, loginAttempts := 4\<rparr>]"
proof -
  let ?u = "demo_user\<lparr>lockUntil := None, loginAttempts := 4\<rparr>"
  let ?w = "demo_world [?u]"
  have c: "user_collection ?w = Some (Real_collection ''users'')"
    by (simp add: demo_world_def)
  have f: "store_findOne (auth_query ''A@x.com'') (users ?w) = Some ?u"
    by (simp add: demo_findOne demo_world_def)
  have l: "\<not> is_locked demo_clock ?u"
    by (simp add: is_locked_def)
  have v: "\<not> bcrypt_compare demo_bcrypt ''wrong'' (password ?u)"
    by (simp add: demo_compare demo_user_fields)
  have b: "loginAttempts ?u + 1 \<ge> 5"
    by simp
  from authenticate_failure_at_threshold[OF c f l v b]
  show ?thesis
    by (auto simp: demo_world_def)
qed

section \<open>Lookup and results of authenticate and createUser\<close>



text \<open>
  C5.  A success result of \<open>authenticate\<close> is \<^verbatim>\<open>{success, user}\<close> where \<open>user\<close>
  has exactly the properties id, name, email, username, role, profile and createdAt
  of an account of the store; a success result of \<open>createUser\<close> is
  \<^verbatim>\<open>{success, userId, user}\<close> where \<open>user\<close> has exactly the properties id, name,
  email, username and role, taken from the identifier the insertion returned and
  from the registration data.  Neither has a \<open>password\<close> property, and no property
  is filled from the stored hash or from the password given.
\<close>

theorem results_without_credentials:
  "(authenticate bc clk ident pw w = (Inr r, w') \<longrightarrow>
      (\<exists>u \<in> set (users w).
          r = [(''success'', JBool True),
               (''user'', JObj [(''id'', JId (uid u)),
                                (''name'', JStr (name u)),
                                (''email'', JStr (email u)),
                                (''username'', JStr (username u)),
                                (''role'', JStr (role u)),
                                (''profile'', JObj (profile u)),
                                (''createdAt'', JDate (createdAt u))])])
      \<and> ''password'' \<notin> set (object_keys r)
      \<and> (\<forall>p. js_get r ''user'' = JObj p \<longrightarrow> ''password'' \<notin> set (object_keys p)))
   \<and> (createUser bc cclk ud w = (Inr r, w') \<longrightarrow>
      (\<exists>i. r = [(''success'', JBool True), (''userId'', i),
                 (''user'', JObj [(''id'', i),
                                  (''name'', JStr (d_name ud)),
                                  (''email'', JStr (toLowerCase (d_email ud))),
                                  (''username'', JStr (toLowerCase (d_username ud))),
                                  (''role'', JStr (case d_role ud of None \<Rightarrow> ''student'' | Some x \<Rightarrow> x))])])
      \<and> ''password'' \<notin> set (object_keys r)
      \<and> (\<forall>p. js_get r ''user'' = JObj p \<longrightarrow> ''password'' \<notin> set (object_keys p)))"
proof (intro conjI impI)
  assume a: "authenticate bc clk ident pw w = (Inr r, w')"
  from authenticate_Inr[OF a] obtain u where
    u: "u \<in> set (users w)" "r = [(''success'', JBool True), (''user'', JObj (user_projection u))]"
    by blast
  show "\<exists>u \<in> set (users w).
          r = [(''success'', JBool True),
               (''user'', JObj [(''id'', JId (uid u)),
                                (''name'', JStr (name u)),
                                (''email'', JStr (email u)),
                                (''username'', JStr (username u)),
                                (''role'', JStr (role u)),
                                (''profile'', JObj (profile u)),
                                (''createdAt'', JDate (createdAt u))])]"
    using u by (auto simp: user_projection_def)
  show "''password'' \<notin> set (object_keys r)"
    using u by (simp add: object_keys_def)
  show "\<forall>p. js_get r ''user'' = JObj p \<longrightarrow> ''password'' \<notin> set (object_keys p)"
    using u by (simp add: js_get_def object_keys_def user_projection_def)
next
  assume a: "createUser bc cclk ud w = (Inr r, w')"
  from createUser_Inr[OF a] obtain i where
    r: "r = [(''success'', JBool True), (''userId'', i),
                 (''user'', JObj [(''id'', i),
                                  (''name'', JStr (d_name ud)),
                                  (''email'', JStr (toLowerCase (d_email ud))),
                                  (''username'', JStr (toLowerCase (d_username ud))),
                                  (''role'', JStr (case d_role ud of None \<Rightarrow> ''student'' | Some x \<Rightarrow> x))])]"
    by blast
  then show "\<exists>i. r = [(''success'', JBool True), (''userId'', i),
                 (''user'', JObj [(''id'', i),
                                  (''name'', JStr (d_name ud)),
                                  (''email'', JStr (toLowerCase (d_email ud))),
                                  (''username'', JStr (toLowerCase (d_username ud))),
                                  (''role'', JStr (case d_role ud of None \<Rightarrow> ''student'' | Some x \<Rightarrow> x))])]"
    by blast
  show "''password'' \<notin> set (object_keys r)"
    using r by (simp add: object_keys_def)
  show "\<forall>p. js_get r ''user'' = JObj p \<longrightarrow> ''password'' \<notin> set (object_keys p)"
    using r by (simp add: js_get_def object_keys_def)
qed

theorem results_without_credentials_witness:
  "(\<exists>r w'. authenticate demo_bcrypt demo_clock ''A@x.com'' ''secret1'' (demo_world [demo_user])
              = (Inr r, w')
            \<and> js_get r ''user'' =
                JObj [(''id'', JId (ObjectId 1)), (''name'', JStr ''A''),
                      (''email'', JStr ''a@x.com''), (''username'', JStr ''a1''),
                      (''role'', JStr ''student''), (''profile'', JObj (profile demo_user)),
                      (''createdAt'', JDate 1000)]
            \<and> ''password'' \<notin> set (object_keys r))
   \<and> (\<exists>r w'. createUser demo_bcrypt demo_create_clock demo_data (demo_world []) = (Inr r, w')
            \<and> js_get r ''user'' =
                JObj [(''id'', JId (ObjectId 1)), (''name'', JStr ''A''),
                      (''email'', JStr ''a@x.com''), (''username'', JStr ''a1''),
                      (''role'', JStr ''student'')]
            \<and> ''password'' \<notin> set (object_keys r))"
proof -
  obtain r1 w1 where a: "authenticate demo_bcrypt demo_clock ''A@x.com'' ''secret1''
                            (demo_world [demo_user]) = (Inr r1, w1)"
    using demo_authenticate by (metis prod.collapse)
  obtain r2 w2 where c: "createUser demo_bcrypt demo_create_clock demo_data (demo_world [])
                            = (Inr r2, w2)"
    using demo_createUser by blast
  have r2: "r2 = [(''success'', JBool True), (''userId'', JId (ObjectId 1)),
           (''user'', JObj [(''id'', JId (ObjectId 1)), (''name'', JStr ''A''),
                            (''email'', JStr ''a@x.com''), (''username'', JStr ''a1''),
                            (''role'', JStr ''student'')])]"
    using c demo_createUser by simp
  have cr: "createdAt demo_user = 1000" by code_simp
  from results_without_credentials[where bc = demo_bcrypt and clk = demo_clock
      and ident = "''A@x.com''" and pw = "''secret1''" and w = "demo_world [demo_user]"
      and r = r1 and w' = w1] a
  have p1: "js_get r1 ''user'' =
                JObj [(''id'', JId (ObjectId 1)), (''name'', JStr ''A''),
                      (''email'', JStr ''a@x.com''), (''username'', JStr ''a1''),
                      (''role'', JStr ''student''), (''profile'', JObj (profile demo_user)),
                      (''createdAt'', JDate 1000)]"
    and k1: "''password'' \<notin> set (object_keys r1)"
    by (auto simp: demo_world_def demo_user_fields js_get_def cr)
  from results_without_credentials[where bc = demo_bcrypt and cclk = demo_create_clock
      and ud = demo_data and w = "demo_world []" and r = r2 and w' = w2] c
  have k2: "''password'' \<notin> set (object_keys r2)"
    by simp
  have p2: "js_get r2 ''user'' =
                JObj [(''id'', JId (ObjectId 1)), (''name'', JStr ''A''),
                      (''email'', JStr ''a@x.com''), (''username'', JStr ''a1''),
                      (''role'', JStr ''student'')]"
    by (simp add: r2 js_get_def)
  from a p1 k1 c p2 k2 show ?thesis by blast
qed

section \<open>Registration and deletion\<close>

text \<open>
  C8 for a username that contains \<open>email\<close>: only the username collides, and the
  error names the email.
\<close>

theorem createUser_duplicate_username:
  "fst (createUser demo_bcrypt demo_create_clock
          \<lparr> d_name = ''B'', d_email = ''b@x.com'', d_password = ''secret2'',
            d_username = ''EmailFan'', d_role = None \<rparr>
          (demo_world [demo_user\<lparr>username := ''emailfan''\<rparr>])) =
     Inl (Error ''Email already exists'')"
  by code_simp

text \<open>
  The message of a duplicate registration.  On a connected collection, for valid
  registration data: when the lower-cased email is already stored, \<open>createUser\<close>
  fails with "Email already exists"; when only the lower-cased username is already
  stored, it fails with "Username already exists" unless the store's message, which
  quotes the username, contains \<open>email\<close>, and with "Email already exists" if it
  does.
\<close>

theorem createUser_duplicate_message:
  assumes coll: "user_collection w = Some (Real_collection n)"
      and valid: "d_name ud \<noteq> []" "emailRegex_test (d_email ud)" "6 \<le> length (d_password ud)"
                 "d_username ud \<noteq> []"
  shows "(list_ex (\<lambda>x. email x = toLowerCase (d_email ud)) (users w) \<longrightarrow>
            fst (createUser bc clk ud w) = Inl (Error ''Email already exists''))
       \<and> (\<not> list_ex (\<lambda>x. email x = toLowerCase (d_email ud)) (users w) \<longrightarrow>
            list_ex (\<lambda>x. username x = toLowerCase (d_username ud)) (users w) \<longrightarrow>
            fst (createUser bc clk ud w) =
              Inl (Error ((if str_includes (dup_key_message ''username'' (toLowerCase (d_username ud)))
                                ''email''
                           then ''Email'' else ''Username'') @ '' already exists'')))"
proof (intro conjI impI)
  let ?f = "new_user clk ud (bcrypt_hash bc (d_password ud) saltRounds)"
  assume dup: "list_ex (\<lambda>x. email x = toLowerCase (d_email ud)) (users w)"
  then have "fst (store_insertOne ?f (users w)) =
               Inl (MongoServerError 11000 (dup_key_message ''email'' (toLowerCase (d_email ud))))"
    by (simp add: store_insertOne_def new_user_def)
  from createUser_insert_error[OF coll valid this]
  show "fst (createUser bc clk ud w) = Inl (Error ''Email already exists'')"
    by (simp add: createUser_catch_def dup_key_email_includes)
next
  let ?f = "new_user clk ud (bcrypt_hash bc (d_password ud) saltRounds)"
  assume nodup: "\<not> list_ex (\<lambda>x. email x = toLowerCase (d_email ud)) (users w)"
     and dup: "list_ex (\<lambda>x. username x = toLowerCase (d_username ud)) (users w)"
  then have "fst (store_insertOne ?f (users w)) =
               Inl (MongoServerError 11000 (dup_key_message ''username'' (toLowerCase (d_username ud))))"
    by (simp add: store_insertOne_def new_user_def)
  from createUser_insert_error[OF coll valid this]
  show "fst (createUser bc clk ud w) =
              Inl (Error ((if str_includes (dup_key_message ''username'' (toLowerCase (d_username ud)))
                                ''email''
                           then ''Email'' else ''Username'') @ '' already exists''))"
    by (simp add: createUser_catch_def)
qed

theorem createUser_duplicate_message_witness:
  "fst (createUser demo_bcrypt demo_create_clock demo_data (demo_world [demo_user])) =
     Inl (Error ''Email already exists'')
   \<and> fst (createUser demo_bcrypt demo_create_clock (demo_data\<lparr>d_email := ''b@x.com''\<rparr>)
          (demo_world [demo_user])) =
     Inl (Error ''Username already exists'')"
proof -
  let ?w = "demo_world [demo_user]"
  have c: "user_collection ?w = Some (Real_collection ''users'')"
    by (simp add: demo_world_def)
  have v2: "d_name (demo_data\<lparr>d_email := ''b@x.com''\<rparr>) \<noteq> []"
    "6 \<le> length (d_password (demo_data\<lparr>d_email := ''b@x.com''\<rparr>))"
    "d_username (demo_data\<lparr>d_email := ''b@x.com''\<rparr>) \<noteq> []"
    using demo_data_valid(1,3,4) by simp_all
  from createUser_duplicate_message[OF c demo_data_valid(1-4), where bc = demo_bcrypt
      and clk = demo_create_clock]
  have a: "fst (createUser demo_bcrypt demo_create_clock demo_data ?w) =
     Inl (Error ''Email already exists'')"
    by (simp add: demo_world_def demo_data_valid demo_user_fields)
  from createUser_duplicate_message[OF c v2(1) demo_data_again(3) v2(2,3), where bc = demo_bcrypt
      and clk = demo_create_clock]
  have b: "fst (createUser demo_bcrypt demo_create_clock (demo_data\<lparr>d_email := ''b@x.com''\<rparr>) ?w) =
     Inl (Error ''Username already exists'')"
    unfolding demo_data_again(1,2)
    by (simp add: demo_world_def demo_user_fields demo_data_again(4))
  from a b show ?thesis by simp
qed



text \<open>
  C7 without a connection: the insertion is acknowledged by the mock collection, the
  lookup of the automatic login finds nothing, and the handler answers from its
  \<^verbatim>\<open>catch\<close> block: back to the registration form, with the error of
  \<open>authenticate\<close>.
\<close>

theorem post_register_auto_login_fails:
  "fst (post_register getCollection demo_bcrypt demo_create_clock demo_clock demo_body
          demo_session demo_offline) =
     (Redirect ''/auth/register'',
      \<lparr> user = None, returnTo = None, error = Some ''Invalid credentials'', success = None,
        formData = Some [(''name'', JStr ''A''), (''email'', JStr ''a@x.com''),
                         (''username'', JStr ''a1'')] \<rparr>)"
  by code_simp

section \<open>The collection without a connection\<close>




section \<open>Role checks\<close>

text \<open>
  C10.  For every required role \<open>r\<close> and every session that carries a user \<open>u\<close>,
  \<open>requireRole r\<close> passes the request on exactly when the role of \<open>u\<close> is \<open>r\<close> or
  is \<open>admin\<close>, and answers every other request with status 403 and the text
  "Access denied"; the session is left as it was.  In particular a user whose role
  is \<open>admin\<close> passes whatever role is required.
\<close>

theorem requireRole_grants_iff:
  assumes "truthy u"
  shows "(fst (requireRole r url (s\<lparr>user := Some u\<rparr>)) = Next) =
           (js_member u ''role'' = JStr r \<or> js_member u ''role'' = JStr ''admin'')
       \<and> (fst (requireRole r url (s\<lparr>user := Some u\<rparr>)) \<noteq> Next \<longrightarrow>
            fst (requireRole r url (s\<lparr>user := Some u\<rparr>)) = Send_status 403 ''Access denied'')
       \<and> snd (requireRole r url (s\<lparr>user := Some u\<rparr>)) = s\<lparr>user := Some u\<rparr>
       \<and> (js_member u ''role'' = JStr ''admin'' \<longrightarrow>
            fst (requireRole r url (s\<lparr>user := Some u\<rparr>)) = Next)"
  using assms by (simp add: requireRole_def)

theorem requireRole_grants_iff_witness:
  "fst (requireRole ''student'' ''/crud''
          \<lparr>user = Some (JObj [(''id'', JId (ObjectId 1)), (''role'', JStr ''admin'')]),
           returnTo = None, error = None, success = None, formData = None\<rparr>) = Next
   \<and> fst (requireRole ''teacher'' ''/crud''
          \<lparr>user = Some (JObj [(''id'', JId (ObjectId 2)), (''role'', JStr ''student'')]),
           returnTo = None, error = None, success = None, formData = None\<rparr>)
       = Send_status 403 ''Access denied''"
proof -
  let ?s = "\<lparr>user = None, returnTo = None, error = None, success = None, formData = None\<rparr>"
  have t: "truthy (JObj obj)" for obj by simp
  from requireRole_grants_iff[OF t[of "[(''id'', JId (ObjectId 1)), (''role'', JStr ''admin'')]"],
         where r = "''student''" and url = "''/crud''" and s = ?s]
       requireRole_grants_iff[OF t[of "[(''id'', JId (ObjectId 2)), (''role'', JStr ''student'')]"],
         where r = "''teacher''" and url = "''/crud''" and s = ?s]
  show ?thesis
    by (simp add: js_member_def js_get_def)
qed

end
